theory Spec2Isabelle
  imports Complex_Main "HOL-Library.Word"
begin

section \<open>Entity model (src/types/index.ts)\<close>

text \<open>
  Identifiers are the strings produced by \<open>uuidv4()\<close>. Names are JavaScript strings, kept
  as lists of UTF-16 code units so that Cyrillic text and the whitespace class of
  \<open>String.prototype.trim\<close> and of the regular expression \<open>\s\<close> can be written down
  exactly. Coordinates and sizes are JavaScript numbers read as real numbers: the store only
  keeps and copies them and never computes with them. Seat and row counts are the integers
  the sliders of the user interface produce.
\<close>

type_synonym ident = string
type_synonym jsstring = "16 word list"

datatype TableType = Round | Square | Rectangle | Theater | Amphitheater

record Guest =
  guest_id :: ident
  firstName :: jsstring
  lastName :: jsstring
  middleName :: "jsstring option"
  fullName :: jsstring

record Seat =
  seat_id :: ident
  guestId :: "ident option"
  position :: nat

record TableRow =
  seatCount :: int

record Table =
  table_id :: ident
  table_type :: TableType
  table_name :: jsstring
  table_x :: real
  table_y :: real
  rotation :: real
  seats :: "Seat list"
  rows :: "int option"
  seatsPerRow :: "int option"
  rowConfigs :: "TableRow list option"
  width :: real
  height :: real

record SeatingLayout =
  tables :: "Table list"
  guests :: "Guest list"
  unassignedGuests :: "ident list"

text \<open>The partial update accepted by \<open>updateTableConfig\<close>; an absent key is \<open>None\<close>.\<close>

record TableConfigUpdate =
  cfg_name :: "jsstring option"
  cfg_x :: "real option"
  cfg_y :: "real option"
  cfg_rotation :: "real option"
  cfg_width :: "real option"
  cfg_height :: "real option"
  cfg_rows :: "int option"
  cfg_seatsPerRow :: "int option"
  cfg_seats :: "int option"
  cfg_rowConfigs :: "TableRow list option"

section \<open>JavaScript helpers\<close>

text \<open>
  The code units that \<open>trim()\<close> strips and \<open>\s\<close> matches: the WhiteSpace and
  LineTerminator productions of ECMAScript.
\<close>

definition is_ws :: "16 word \<Rightarrow> bool" where
  "is_ws c = (c = 0x09 \<or> c = 0x0A \<or> c = 0x0B \<or> c = 0x0C \<or> c = 0x0D \<or> c = 0x20
     \<or> c = 0xA0 \<or> c = 0x1680 \<or> (0x2000 \<le> c \<and> c \<le> 0x200A)
     \<or> c = 0x2028 \<or> c = 0x2029 \<or> c = 0x202F \<or> c = 0x205F \<or> c = 0x3000 \<or> c = 0xFEFF)"

definition js_trim :: "jsstring \<Rightarrow> jsstring" where
  "js_trim s = rev (dropWhile is_ws (rev (dropWhile is_ws s)))"

text \<open>
  \<open>s.split(/\s+/)\<close>: the pieces between maximal runs of whitespace; a run at the start or
  at the end of the string leaves an empty piece there, and the empty string gives one
  empty piece.
\<close>

function split_ws_from :: "jsstring \<Rightarrow> jsstring \<Rightarrow> jsstring list" where
  "split_ws_from cur [] = [cur]"
| "split_ws_from cur (c # cs) =
     (if is_ws c then cur # split_ws_from [] (dropWhile is_ws cs)
      else split_ws_from (cur @ [c]) cs)"
  by pat_completeness auto
termination
  by (relation "measure (\<lambda>(cur, s). length s)")
     (auto simp: length_dropWhile_le le_imp_less_Suc)

definition split_ws :: "jsstring \<Rightarrow> jsstring list" where
  "split_ws s = split_ws_from [] s"

text \<open>\<open>parts.join(' ')\<close>\<close>

fun join_sp :: "jsstring list \<Rightarrow> jsstring" where
  "join_sp [] = []"
| "join_sp [p] = p"
| "join_sp (p # q # ps) = p @ [0x20] @ join_sp (q # ps)"

text \<open>
  Truthiness of a \<open>string | null\<close> value: \<open>null\<close>, \<open>undefined\<close> and the empty string
  are falsy.
\<close>

definition truthy_id :: "ident option \<Rightarrow> bool" where
  "truthy_id g = (case g of None \<Rightarrow> False | Some i \<Rightarrow> i \<noteq> [])"

text \<open>\<open>n || d\<close> on an optional number: \<open>undefined\<close> and \<open>0\<close> give the default.\<close>

definition or_default :: "int option \<Rightarrow> int \<Rightarrow> int" where
  "or_default n d = (case n of None \<Rightarrow> d | Some k \<Rightarrow> if k = 0 then d else k)"

section \<open>Seat creation and name parsing\<close>

text \<open>
  Every function that calls \<open>uuidv4()\<close> takes the identifiers it draws as an argument:
  \<open>ids k\<close> is the result of the \<open>k\<close>-th call made while the operation runs.
\<close>

definition createSeats ::
  "(nat \<Rightarrow> ident) \<Rightarrow> TableType \<Rightarrow> int \<Rightarrow> int option \<Rightarrow> int option \<Rightarrow> Seat list" where
  "createSeats ids ty seatsCount rws spr =
     (if ty = Theater \<or> ty = Amphitheater then
        (let actualRows = or_default rws 5;
             actualSeatsPerRow = or_default spr 8;
             totalSeats = actualRows * actualSeatsPerRow
         in map (\<lambda>i. \<lparr>seat_id = ids i, guestId = None, position = i\<rparr>) [0..<nat totalSeats])
      else map (\<lambda>i. \<lparr>seat_id = ids i, guestId = None, position = i\<rparr>) [0..<nat seatsCount])"

fun getDefaultTableSize :: "TableType \<Rightarrow> real \<times> real \<times> int" where
  "getDefaultTableSize Round = (160, 160, 8)"
| "getDefaultTableSize Square = (140, 140, 8)"
| "getDefaultTableSize Rectangle = (200, 120, 10)"
| "getDefaultTableSize Theater = (400, 300, 40)"
| "getDefaultTableSize Amphitheater = (400, 300, 40)"

text \<open>The result of \<open>parseGuestName\<close>: first name, last name, optional middle name.\<close>

definition name_parts :: "jsstring \<Rightarrow> jsstring list" where
  "name_parts full = filter (\<lambda>p. length p > 0) (split_ws (js_trim full))"

fun parse_parts :: "jsstring list \<Rightarrow> jsstring \<times> jsstring \<times> jsstring option" where
  "parse_parts [] = ([], [], None)"
| "parse_parts [p0] = (p0, [], None)"
| "parse_parts [p0, p1] = (p1, p0, None)"
| "parse_parts (p0 # p1 # rest) = (p1, p0, Some (join_sp rest))"

definition parseGuestName :: "jsstring \<Rightarrow> jsstring \<times> jsstring \<times> jsstring option" where
  "parseGuestName full = parse_parts (name_parts full)"

section \<open>The store (src/hooks/useSeatingStore.ts)\<close>

definition initial_layout :: SeatingLayout where
  "initial_layout = \<lparr>tables = [], guests = [], unassignedGuests = []\<rparr>"

definition addGuest ::
  "ident \<Rightarrow> jsstring \<Rightarrow> jsstring \<Rightarrow> jsstring option \<Rightarrow> SeatingLayout \<Rightarrow> SeatingLayout" where
  "addGuest new_id frst lst middle st =
     (let mid = (case middle of None \<Rightarrow> [] | Some m \<Rightarrow> js_trim m);
          formattedFullName =
            (if mid \<noteq> [] then js_trim lst @ [0x20] @ js_trim frst @ [0x20] @ mid
             else js_trim (js_trim lst @ [0x20] @ js_trim frst));
          guest = \<lparr>guest_id = new_id, firstName = js_trim frst, lastName = js_trim lst,
                   middleName = (if mid \<noteq> [] then Some mid else None),
                   fullName = formattedFullName\<rparr>
      in st\<lparr>guests := guests st @ [guest],
            unassignedGuests := unassignedGuests st @ [guest_id guest]\<rparr>)"

definition clear_guest :: "ident \<Rightarrow> Seat \<Rightarrow> Seat" where
  "clear_guest g s = (if guestId s = Some g then s\<lparr>guestId := None\<rparr> else s)"

definition removeGuest :: "ident \<Rightarrow> SeatingLayout \<Rightarrow> SeatingLayout" where
  "removeGuest g st =
     (let updatedTables = map (\<lambda>t. t\<lparr>seats := map (clear_guest g) (seats t)\<rparr>) (tables st)
      in st\<lparr>tables := updatedTables,
            guests := filter (\<lambda>x. guest_id x \<noteq> g) (guests st),
            unassignedGuests := filter (\<lambda>i. i \<noteq> g) (unassignedGuests st)\<rparr>)"

text \<open>
  The loop of \<open>importGuests\<close>: \<open>k\<close> counts the identifiers drawn so far; a name that is
  empty after \<open>trim()\<close> is skipped.
\<close>

definition import_guest :: "ident \<Rightarrow> jsstring \<Rightarrow> Guest" where
  "import_guest new_id name =
     (case parseGuestName (js_trim name) of (frst, lst, middle) \<Rightarrow>
        \<lparr>guest_id = new_id, firstName = frst, lastName = lst, middleName = middle,
         fullName =
           (case middle of
              None \<Rightarrow> js_trim (lst @ [0x20] @ frst)
            | Some m \<Rightarrow>
                (if m \<noteq> [] then lst @ [0x20] @ frst @ [0x20] @ m
                 else js_trim (lst @ [0x20] @ frst)))\<rparr>)"

fun import_loop :: "(nat \<Rightarrow> ident) \<Rightarrow> nat \<Rightarrow> jsstring list \<Rightarrow> Guest list" where
  "import_loop ids k [] = []"
| "import_loop ids k (name # names) =
     (if js_trim name \<noteq> [] then import_guest (ids k) name # import_loop ids (Suc k) names
      else import_loop ids k names)"

definition importGuests :: "(nat \<Rightarrow> ident) \<Rightarrow> jsstring list \<Rightarrow> SeatingLayout \<Rightarrow> SeatingLayout" where
  "importGuests ids names st =
     (let newGuests = import_loop ids 0 names;
          newIds = map guest_id newGuests
      in st\<lparr>guests := guests st @ newGuests,
            unassignedGuests := unassignedGuests st @ newIds\<rparr>)"

definition addTable ::
  "ident \<Rightarrow> (nat \<Rightarrow> ident) \<Rightarrow> TableType \<Rightarrow> jsstring \<Rightarrow> real \<Rightarrow> real \<Rightarrow> SeatingLayout
     \<Rightarrow> SeatingLayout" where
  "addTable new_id ids ty nm x y st =
     (case getDefaultTableSize ty of (w, h, n) \<Rightarrow>
        (let isTheaterStyle = (ty = Theater \<or> ty = Amphitheater);
             isAmphitheater = (ty = Amphitheater);
             newTable = \<lparr>table_id = new_id, table_type = ty, table_name = nm,
                         table_x = x, table_y = y, rotation = 0,
                         seats = createSeats ids ty n (Some 5) (Some 8),
                         rows = (if isTheaterStyle then Some 5 else None),
                         seatsPerRow = (if isTheaterStyle then Some 8 else None),
                         rowConfigs =
                           (if isAmphitheater then Some (replicate 5 \<lparr>seatCount = 8\<rparr>)
                            else None),
                         width = w, height = h\<rparr>
         in st\<lparr>tables := tables st @ [newTable]\<rparr>))"

definition removeTable :: "ident \<Rightarrow> SeatingLayout \<Rightarrow> SeatingLayout" where
  "removeTable tid st =
     (let assignedGuestIds =
            (case find (\<lambda>t. table_id t = tid) (tables st) of
               None \<Rightarrow> []
             | Some t \<Rightarrow> map (\<lambda>s. the (guestId s)) (filter (\<lambda>s. truthy_id (guestId s)) (seats t)))
      in st\<lparr>tables := filter (\<lambda>t. table_id t \<noteq> tid) (tables st),
            unassignedGuests := unassignedGuests st @ assignedGuestIds\<rparr>)"

definition updateTablePosition :: "ident \<Rightarrow> real \<Rightarrow> real \<Rightarrow> SeatingLayout \<Rightarrow> SeatingLayout" where
  "updateTablePosition tid x y st =
     st\<lparr>tables := map (\<lambda>t. if table_id t = tid then t\<lparr>table_x := x, table_y := y\<rparr> else t)
                        (tables st)\<rparr>"

definition updateTableRotation :: "ident \<Rightarrow> real \<Rightarrow> SeatingLayout \<Rightarrow> SeatingLayout" where
  "updateTableRotation tid r st =
     st\<lparr>tables := map (\<lambda>t. if table_id t = tid then t\<lparr>rotation := r\<rparr> else t) (tables st)\<rparr>"

text \<open>
  \<open>updateTableConfig\<close>, in the three parts of its body: the simple field updates, the
  test whether the seating configuration changed, and the regeneration of the seats.
\<close>

definition apply_simple_updates :: "TableConfigUpdate \<Rightarrow> Table \<Rightarrow> Table" where
  "apply_simple_updates cfg t =
     t\<lparr>table_name := (case cfg_name cfg of None \<Rightarrow> table_name t | Some v \<Rightarrow> v),
       table_x := (case cfg_x cfg of None \<Rightarrow> table_x t | Some v \<Rightarrow> v),
       table_y := (case cfg_y cfg of None \<Rightarrow> table_y t | Some v \<Rightarrow> v),
       rotation := (case cfg_rotation cfg of None \<Rightarrow> rotation t | Some v \<Rightarrow> v),
       width := (case cfg_width cfg of None \<Rightarrow> width t | Some v \<Rightarrow> v),
       height := (case cfg_height cfg of None \<Rightarrow> height t | Some v \<Rightarrow> v),
       rows := (case cfg_rows cfg of None \<Rightarrow> rows t | Some v \<Rightarrow> Some v),
       seatsPerRow := (case cfg_seatsPerRow cfg of None \<Rightarrow> seatsPerRow t | Some v \<Rightarrow> Some v),
       rowConfigs := (case cfg_rowConfigs cfg of None \<Rightarrow> rowConfigs t | Some v \<Rightarrow> Some v)\<rparr>"

definition seating_changed :: "TableConfigUpdate \<Rightarrow> bool" where
  "seating_changed cfg =
     (cfg_seats cfg \<noteq> None \<or> cfg_rows cfg \<noteq> None \<or> cfg_seatsPerRow cfg \<noteq> None
        \<or> cfg_rowConfigs cfg \<noteq> None)"

text \<open>
  The second loop of the branch without \<open>rowConfigs\<close>: the guest references of the old
  seats are copied onto the new seats, index by index, up to the shorter length.
\<close>

definition copy_guests :: "Seat list \<Rightarrow> Seat list \<Rightarrow> Seat list" where
  "copy_guests existingSeats newSeats =
     map (\<lambda>i. if i < min (length existingSeats) (length newSeats)
              then (newSeats ! i)\<lparr>guestId := guestId (existingSeats ! i)\<rparr>
              else newSeats ! i)
         [0..<length newSeats]"

definition regenerate_seats :: "(nat \<Rightarrow> ident) \<Rightarrow> TableConfigUpdate \<Rightarrow> Table \<Rightarrow> Seat list" where
  "regenerate_seats ids cfg t =
     (case cfg_rowConfigs cfg of
        Some rc \<Rightarrow>
          (let seatsCount =
                 (case cfg_seats cfg of Some n \<Rightarrow> n
                  | None \<Rightarrow> foldl (\<lambda>sum r. sum + seatCount r) 0 rc);
               existingSeats = seats t
           in map (\<lambda>i. \<lparr>seat_id = (if i < length existingSeats then seat_id (existingSeats ! i)
                                     else ids (i - length existingSeats)),
                         guestId = (if i < length existingSeats then guestId (existingSeats ! i)
                                    else None),
                         position = i\<rparr>)
                  [0..<nat seatsCount])
      | None \<Rightarrow>
          (let seatsCount = (case cfg_seats cfg of Some n \<Rightarrow> n | None \<Rightarrow> int (length (seats t)));
               rws = (case cfg_rows cfg of Some r \<Rightarrow> Some r | None \<Rightarrow> rows t);
               spr = (case cfg_seatsPerRow cfg of Some r \<Rightarrow> Some r | None \<Rightarrow> seatsPerRow t);
               existingSeats = seats t;
               newSeats = createSeats ids (table_type t) seatsCount rws spr
           in copy_guests existingSeats newSeats))"

definition updateTableConfig ::
  "(nat \<Rightarrow> ident) \<Rightarrow> ident \<Rightarrow> TableConfigUpdate \<Rightarrow> SeatingLayout \<Rightarrow> SeatingLayout" where
  "updateTableConfig ids tid cfg st =
     (case find (\<lambda>t. table_id t = tid) (tables st) of
        None \<Rightarrow> st
      | Some t \<Rightarrow>
          (let simple = apply_simple_updates cfg t;
               updatedTable =
                 (if seating_changed cfg then simple\<lparr>seats := regenerate_seats ids cfg t\<rparr>
                  else simple)
           in st\<lparr>tables := map (\<lambda>u. if table_id u = tid then updatedTable else u) (tables st)\<rparr>))"

definition place_guest :: "ident \<Rightarrow> ident \<Rightarrow> Seat \<Rightarrow> Seat" where
  "place_guest sid g s = (if seat_id s = sid then s\<lparr>guestId := Some g\<rparr> else s)"

definition empty_seat :: "ident \<Rightarrow> Seat \<Rightarrow> Seat" where
  "empty_seat sid s = (if seat_id s = sid then s\<lparr>guestId := None\<rparr> else s)"

definition assignGuestToSeat :: "ident \<Rightarrow> ident \<Rightarrow> ident \<Rightarrow> SeatingLayout \<Rightarrow> SeatingLayout" where
  "assignGuestToSeat g tid sid st =
     (let tablesWithGuestRemoved =
            map (\<lambda>t. t\<lparr>seats := map (clear_guest g) (seats t)\<rparr>) (tables st);
          updatedTables =
            map (\<lambda>t. if table_id t = tid then t\<lparr>seats := map (place_guest sid g) (seats t)\<rparr>
                     else t)
                tablesWithGuestRemoved
      in st\<lparr>tables := updatedTables,
            unassignedGuests := filter (\<lambda>i. i \<noteq> g) (unassignedGuests st)\<rparr>)"

definition unassignGuestFromSeat :: "ident \<Rightarrow> ident \<Rightarrow> SeatingLayout \<Rightarrow> SeatingLayout" where
  "unassignGuestFromSeat tid sid st =
     (let guestId_found =
            (case find (\<lambda>t. table_id t = tid) (tables st) of
               None \<Rightarrow> None
             | Some t \<Rightarrow>
                 (case find (\<lambda>s. seat_id s = sid) (seats t) of
                    None \<Rightarrow> None
                  | Some s \<Rightarrow> guestId s))
      in if \<not> truthy_id guestId_found then st
         else st\<lparr>tables := map (\<lambda>t. if table_id t = tid
                                     then t\<lparr>seats := map (empty_seat sid) (seats t)\<rparr> else t)
                                (tables st),
                 unassignedGuests := unassignedGuests st @ [the guestId_found]\<rparr>)"

text \<open>
  The \<open>map\<close> callback of \<open>moveGuestBetweenSeats\<close> assigns to the variable
  \<open>displacedGuestId\<close> declared outside it; the variable is threaded through the tables in
  list order. A table whose id is \<open>fromTableId\<close> is handled by the first \<open>if\<close>, which
  returns before the test for \<open>toTableId\<close> is reached.
\<close>

fun move_tables ::
  "ident \<Rightarrow> ident \<Rightarrow> ident \<Rightarrow> ident \<Rightarrow> ident \<Rightarrow> ident option \<Rightarrow> Table list
     \<Rightarrow> Table list \<times> ident option" where
  "move_tables g fromT fromS toT toS displaced [] = ([], displaced)"
| "move_tables g fromT fromS toT toS displaced (t # ts) =
     (if table_id t = fromT then
        (case move_tables g fromT fromS toT toS displaced ts of (ts', d') \<Rightarrow>
           (t\<lparr>seats := map (empty_seat fromS) (seats t)\<rparr> # ts', d'))
      else if table_id t = toT then
        (let targetGuest =
               (case find (\<lambda>s. seat_id s = toS) (seats t) of
                  None \<Rightarrow> None
                | Some s \<Rightarrow> if truthy_id (guestId s) then guestId s else None)
         in case move_tables g fromT fromS toT toS targetGuest ts of (ts', d') \<Rightarrow>
              (t\<lparr>seats := map (place_guest toS g) (seats t)\<rparr> # ts', d'))
      else
        (case move_tables g fromT fromS toT toS displaced ts of (ts', d') \<Rightarrow> (t # ts', d')))"

definition moveGuestBetweenSeats ::
  "ident \<Rightarrow> ident \<Rightarrow> ident \<Rightarrow> ident \<Rightarrow> ident \<Rightarrow> SeatingLayout \<Rightarrow> SeatingLayout" where
  "moveGuestBetweenSeats g fromT fromS toT toS st =
     (case move_tables g fromT fromS toT toS None (tables st) of
        (updatedTables, displacedGuestId) \<Rightarrow>
          (let newUnassigned =
                 (if truthy_id displacedGuestId \<and> displacedGuestId \<noteq> Some g
                  then unassignedGuests st @ [the displacedGuestId]
                  else unassignedGuests st)
           in st\<lparr>tables := updatedTables, unassignedGuests := newUnassigned\<rparr>))"

definition clearLayout :: "SeatingLayout \<Rightarrow> SeatingLayout" where
  "clearLayout st =
     (let allAssignedGuestIds =
            map (\<lambda>s. the (guestId s))
                (filter (\<lambda>s. truthy_id (guestId s)) (concat (map seats (tables st))))
      in st\<lparr>tables := [], unassignedGuests := unassignedGuests st @ allAssignedGuestIds\<rparr>)"

definition resetAll :: "SeatingLayout \<Rightarrow> SeatingLayout" where
  "resetAll st = \<lparr>tables = [], guests = [], unassignedGuests = []\<rparr>"

section \<open>Sequences of store operations\<close>

datatype Operation =
    AddGuest ident jsstring jsstring "jsstring option"
  | RemoveGuest ident
  | ImportGuests "nat \<Rightarrow> ident" "jsstring list"
  | AddTable ident "nat \<Rightarrow> ident" TableType jsstring real real
  | RemoveTable ident
  | UpdateTablePosition ident real real
  | UpdateTableRotation ident real
  | UpdateTableConfig "nat \<Rightarrow> ident" ident TableConfigUpdate
  | AssignGuestToSeat ident ident ident
  | UnassignGuestFromSeat ident ident
  | MoveGuestBetweenSeats ident ident ident ident ident
  | ClearLayout
  | ResetAll

fun step :: "SeatingLayout \<Rightarrow> Operation \<Rightarrow> SeatingLayout" where
  "step st (AddGuest i f l m) = addGuest i f l m st"
| "step st (RemoveGuest g) = removeGuest g st"
| "step st (ImportGuests ids names) = importGuests ids names st"
| "step st (AddTable i ids ty nm x y) = addTable i ids ty nm x y st"
| "step st (RemoveTable tid) = removeTable tid st"
| "step st (UpdateTablePosition tid x y) = updateTablePosition tid x y st"
| "step st (UpdateTableRotation tid r) = updateTableRotation tid r st"
| "step st (UpdateTableConfig ids tid cfg) = updateTableConfig ids tid cfg st"
| "step st (AssignGuestToSeat g tid sid) = assignGuestToSeat g tid sid st"
| "step st (UnassignGuestFromSeat tid sid) = unassignGuestFromSeat tid sid st"
| "step st (MoveGuestBetweenSeats g ft fs tt ts) = moveGuestBetweenSeats g ft fs tt ts st"
| "step st ClearLayout = clearLayout st"
| "step st ResetAll = resetAll st"

text \<open>The layout reached from the empty store by a sequence of operations.\<close>

definition run :: "Operation list \<Rightarrow> SeatingLayout" where
  "run ops = foldl step initial_layout ops"

text \<open>A partial configuration with no key set.\<close>

definition no_update :: TableConfigUpdate where
  "no_update = \<lparr>cfg_name = None, cfg_x = None, cfg_y = None, cfg_rotation = None,
     cfg_width = None, cfg_height = None, cfg_rows = None, cfg_seatsPerRow = None,
     cfg_seats = None, cfg_rowConfigs = None\<rparr>"

section \<open>Predicates of the specification\<close>

text \<open>Seat \<open>i\<close> of a seat list carries position \<open>i\<close>.\<close>

definition seats_numbered :: "Seat list \<Rightarrow> bool" where
  "seats_numbered ss = (map position ss = [0..<length ss])"

definition positions_consecutive :: "SeatingLayout \<Rightarrow> bool" where
  "positions_consecutive st = list_all (\<lambda>t. seats_numbered (seats t)) (tables st)"

text \<open>
  How often a guest is listed as unassigned, and how many seats of the layout refer to the
  guest. The central invariant of the specification: every guest of the guest list is
  either listed once and seated nowhere, or seated once and not listed.
\<close>

definition unassigned_count :: "SeatingLayout \<Rightarrow> ident \<Rightarrow> nat" where
  "unassigned_count st g = length (filter (\<lambda>i. i = g) (unassignedGuests st))"

definition seated_count :: "SeatingLayout \<Rightarrow> ident \<Rightarrow> nat" where
  "seated_count st g =
     length (filter (\<lambda>s. guestId s = Some g) (concat (map seats (tables st))))"

definition placed_once :: "SeatingLayout \<Rightarrow> ident \<Rightarrow> bool" where
  "placed_once st g =
     ((unassigned_count st g = 1 \<and> seated_count st g = 0)
        \<or> (unassigned_count st g = 0 \<and> seated_count st g = 1))"

definition placement_invariant :: "SeatingLayout \<Rightarrow> bool" where
  "placement_invariant st = list_all (\<lambda>g. placed_once st (guest_id g)) (guests st)"

text \<open>
  The seat count implied by a table's layout parameters: rows times seats per row for a
  theater, the sum of the per-row counts for an amphitheater. Round, square and rectangular
  tables store no count besides the seat list itself.
\<close>

definition implied_seat_count :: "Table \<Rightarrow> int option" where
  "implied_seat_count t =
     (case table_type t of
        Theater \<Rightarrow>
          (case rows t of None \<Rightarrow> None
           | Some r \<Rightarrow> (case seatsPerRow t of None \<Rightarrow> None | Some n \<Rightarrow> Some (r * n)))
      | Amphitheater \<Rightarrow>
          (case rowConfigs t of None \<Rightarrow> None | Some rc \<Rightarrow> Some (sum_list (map seatCount rc)))
      | _ \<Rightarrow> Some (int (length (seats t))))"

definition seat_count_invariant :: "SeatingLayout \<Rightarrow> bool" where
  "seat_count_invariant st =
     list_all (\<lambda>t. implied_seat_count t = Some (int (length (seats t)))) (tables st)"

text \<open>The guest references of a table's seats, in seat order.\<close>

definition seat_guests :: "Table \<Rightarrow> ident option list" where
  "seat_guests t = map guestId (seats t)"

text \<open>
  An identifier supply for worked examples: the \<open>k\<close>-th identifier drawn is the
  \<open>k\<close>-th element of the list.
\<close>

definition ids_from :: "ident list \<Rightarrow> nat \<Rightarrow> ident" where
  "ids_from xs k = (if k < length xs then xs ! k else [])"

section \<open>Snapshot export and import (src/App.tsx)\<close>

text \<open>
  \<open>handleExport\<close> serialises the three lists of the store and a timestamp;
  \<open>handleImport\<close> reads the chosen file, calls \<open>JSON.parse\<close> on its text and shows a
  notice. \<open>JSON.stringify\<close> and \<open>JSON.parse\<close> are library functions and are taken as
  parameters; \<open>parse\<close> returns \<open>None\<close> where \<open>JSON.parse\<close> throws. Both handlers are
  modelled by the store they leave behind and what they show or produce.
\<close>

record Snapshot =
  snap_tables :: "Table list"
  snap_guests :: "Guest list"
  snap_unassignedGuests :: "ident list"
  exportDate :: string

datatype Notice = ExportDone | ImportDone | ImportError | NoNotice

definition handleExport ::
  "(Snapshot \<Rightarrow> string) \<Rightarrow> string \<Rightarrow> SeatingLayout \<Rightarrow> SeatingLayout \<times> string \<times> Notice" where
  "handleExport stringify now st =
     (let data = \<lparr>snap_tables = tables st, snap_guests = guests st,
                  snap_unassignedGuests = unassignedGuests st, exportDate = now\<rparr>
      in (st, stringify data, ExportDone))"

definition handleImport ::
  "(string \<Rightarrow> 'j option) \<Rightarrow> string option \<Rightarrow> SeatingLayout \<Rightarrow> SeatingLayout \<times> Notice" where
  "handleImport parse file st =
     (case file of
        None \<Rightarrow> (st, NoNotice)
      | Some json \<Rightarrow>
          (case parse json of None \<Rightarrow> (st, ImportError) | Some doc \<Rightarrow> (st, ImportDone)))"

text \<open>Two layouts with the same tables, guests and unassigned ids, list order ignored.\<close>

definition same_layout :: "SeatingLayout \<Rightarrow> SeatingLayout \<Rightarrow> bool" where
  "same_layout a b =
     (set (tables a) = set (tables b) \<and> set (guests a) = set (guests b)
        \<and> set (unassignedGuests a) = set (unassignedGuests b))"

text \<open>
  The store after a snapshot of layout \<open>exported\<close> has been exported and the resulting
  document imported while the store holds \<open>live\<close>.
\<close>

definition import_of_export ::
  "(Snapshot \<Rightarrow> string) \<Rightarrow> (string \<Rightarrow> 'j option) \<Rightarrow> string \<Rightarrow> SeatingLayout \<Rightarrow> SeatingLayout
     \<Rightarrow> SeatingLayout" where
  "import_of_export stringify parse now exported live =
     (case handleExport stringify now exported of (_, document, _) \<Rightarrow>
        fst (handleImport parse (Some document) live))"

section \<open>The import rule in the words of the specification\<close>

text \<open>
  The whitespace-separated tokens of a raw name: the maximal runs of characters that are
  not whitespace.
\<close>

fun tokens_from :: "jsstring \<Rightarrow> jsstring \<Rightarrow> jsstring list" where
  "tokens_from cur [] = (if cur = [] then [] else [cur])"
| "tokens_from cur (c # cs) =
     (if is_ws c then (if cur = [] then tokens_from [] cs else cur # tokens_from [] cs)
      else tokens_from (cur @ [c]) cs)"

definition tokens :: "jsstring \<Rightarrow> jsstring list" where
  "tokens s = tokens_from [] s"

definition blank :: "jsstring \<Rightarrow> bool" where
  "blank s = list_all is_ws s"

text \<open>
  The guest the specification describes for a token list: one token is the first name with
  an empty last name; two tokens are last name, first name; three or more are last name,
  first name and the rest joined by spaces as middle name. The full name is
  \<open>LastName FirstName [MiddleName]\<close>.
\<close>

fun spec_guest :: "ident \<Rightarrow> jsstring list \<Rightarrow> Guest" where
  "spec_guest i [] =
     \<lparr>guest_id = i, firstName = [], lastName = [], middleName = None, fullName = []\<rparr>"
| "spec_guest i [t] =
     \<lparr>guest_id = i, firstName = t, lastName = [], middleName = None, fullName = t\<rparr>"
| "spec_guest i [l, f] =
     \<lparr>guest_id = i, firstName = f, lastName = l, middleName = None,
      fullName = l @ [0x20] @ f\<rparr>"
| "spec_guest i (l # f # m # ms) =
     \<lparr>guest_id = i, firstName = f, lastName = l, middleName = Some (join_sp (m # ms)),
      fullName = l @ [0x20] @ f @ [0x20] @ join_sp (m # ms)\<rparr>"

text \<open>
  The guests the specification expects from a list of raw names: one per entry that is not
  blank, in order, the \<open>k\<close>-th of them with the \<open>k\<close>-th identifier drawn.
\<close>

definition spec_imported :: "(nat \<Rightarrow> ident) \<Rightarrow> jsstring list \<Rightarrow> Guest list" where
  "spec_imported ids names =
     map (\<lambda>(k, n). spec_guest (ids k) (tokens n))
         (enumerate 0 (filter (\<lambda>n. \<not> blank n) names))"

text \<open>The names of the import scenario, as UTF-16 code units.\<close>

definition Ivanov :: jsstring where
  "Ivanov = [0x418, 0x432, 0x430, 0x43D, 0x43E, 0x432]"

definition Ivan :: jsstring where
  "Ivan = [0x418, 0x432, 0x430, 0x43D]"

definition Petrov :: jsstring where
  "Petrov = [0x41F, 0x435, 0x442, 0x440, 0x43E, 0x432]"

definition Petr :: jsstring where
  "Petr = [0x41F, 0x435, 0x442, 0x440]"

definition Sergeevich :: jsstring where
  "Sergeevich = [0x421, 0x435, 0x440, 0x433, 0x435, 0x435, 0x432, 0x438, 0x447]"

definition Sidorova :: jsstring where
  "Sidorova = [0x421, 0x438, 0x434, 0x43E, 0x440, 0x43E, 0x432, 0x430]"

definition scenario_names :: "jsstring list" where
  "scenario_names =
     [Ivanov @ [0x20] @ Ivan, Petrov @ [0x20] @ Petr @ [0x20] @ Sergeevich, Sidorova]"

section \<open>Worked examples\<close>

text \<open>
  One guest seated at seat 5 of a round table of eight, and the slider of that table moved
  to three seats.
\<close>

definition one_seated_ops :: "Operation list" where
  "one_seated_ops =
     [AddGuest ''g1'' [0x41] [0x42] None,
      AddTable ''t1'' (ids_from [''s0'', ''s1'', ''s2'', ''s3'', ''s4'', ''s5'', ''s6'', ''s7''])
        Round [0x54] 0 0,
      AssignGuestToSeat ''g1'' ''t1'' ''s5'']"

definition shrink_to_3 :: Operation where
  "shrink_to_3 =
     UpdateTableConfig (ids_from [''n0'', ''n1'', ''n2'']) ''t1'' (no_update\<lparr>cfg_seats := Some 3\<rparr>)"

text \<open>Guests \<open>a\<close> and \<open>b\<close> on seats 0 and 1 of the same round table.\<close>

definition same_table_ops :: "Operation list" where
  "same_table_ops =
     [AddGuest ''a'' [0x41] [0x42] None, AddGuest ''b'' [0x43] [0x44] None,
      AddTable ''t1'' (ids_from [''s0'', ''s1'', ''s2'', ''s3'', ''s4'', ''s5'', ''s6'', ''s7''])
        Round [0x54] 0 0,
      AssignGuestToSeat ''a'' ''t1'' ''s0'', AssignGuestToSeat ''b'' ''t1'' ''s1'']"

text \<open>Guest \<open>a\<close> on seat 0 of a round table, guest \<open>b\<close> on seat 1 of a square table.\<close>

definition two_tables_ops :: "Operation list" where
  "two_tables_ops =
     [AddGuest ''a'' [0x41] [0x42] None, AddGuest ''b'' [0x43] [0x44] None,
      AddTable ''t1'' (ids_from [''s0'', ''s1'', ''s2'', ''s3'', ''s4'', ''s5'', ''s6'', ''s7''])
        Round [0x54] 0 0,
      AddTable ''t2'' (ids_from [''u0'', ''u1'', ''u2'', ''u3'', ''u4'', ''u5'', ''u6'', ''u7''])
        Square [0x55] 300 0,
      AssignGuestToSeat ''a'' ''t1'' ''s0'', AssignGuestToSeat ''b'' ''t2'' ''u1'']"

text \<open>
  The resize scenario of the specification: a round table of eight with seats 0 to 3
  occupied, resized to six seats and then to three.
\<close>

definition four_seated :: SeatingLayout where
  "four_seated =
     run [AddGuest ''g0'' [0x41] [0x42] None, AddGuest ''g1'' [0x43] [0x44] None,
          AddGuest ''g2'' [0x45] [0x46] None, AddGuest ''g3'' [0x47] [0x48] None,
          AddTable ''t1'' (ids_from [''s0'', ''s1'', ''s2'', ''s3'', ''s4'', ''s5'', ''s6'', ''s7''])
            Round [0x54] 0 0,
          AssignGuestToSeat ''g0'' ''t1'' ''s0'', AssignGuestToSeat ''g1'' ''t1'' ''s1'',
          AssignGuestToSeat ''g2'' ''t1'' ''s2'', AssignGuestToSeat ''g3'' ''t1'' ''s3'']"

definition resized_to_6 :: SeatingLayout where
  "resized_to_6 =
     updateTableConfig (ids_from [''a0'', ''a1'', ''a2'', ''a3'', ''a4'', ''a5'']) ''t1''
       (no_update\<lparr>cfg_seats := Some 6\<rparr>) four_seated"

definition resized_to_3 :: SeatingLayout where
  "resized_to_3 =
     updateTableConfig (ids_from [''b0'', ''b1'', ''b2'']) ''t1''
       (no_update\<lparr>cfg_seats := Some 3\<rparr>) resized_to_6"

text \<open>A store holding one unassigned guest and no table.\<close>

definition one_unassigned :: SeatingLayout where
  "one_unassigned = run [AddGuest ''g1'' [0x41] [0x42] None]"

text \<open>
  A new amphitheater, and the rows slider of the configuration panel moved to three: the
  panel calls \<open>updateTableConfig(table.id, { rows: value })\<close> for theater and
  amphitheater tables alike.
\<close>

definition amphi_ops :: "Operation list" where
  "amphi_ops = [AddTable ''t1'' (\<lambda>k. CHR ''s'' # replicate k CHR ''i'') Amphitheater [0x54] 0 0]"

definition rows_to_3 :: Operation where
  "rows_to_3 =
     UpdateTableConfig (\<lambda>k. CHR ''n'' # replicate k CHR ''i'') ''t1''
       (no_update\<lparr>cfg_rows := Some 3\<rparr>)"

section \<open>Seat numbering\<close>

lemma createSeats_numbered: "seats_numbered (createSeats ids ty n r s)"
  by (simp add: createSeats_def seats_numbered_def Let_def comp_def map_idI)

lemma clear_guest_position [simp]: "position (clear_guest g s) = position s"
  by (simp add: clear_guest_def)

lemma place_guest_position [simp]: "position (place_guest sid g s) = position s"
  by (simp add: place_guest_def)

lemma empty_seat_position [simp]: "position (empty_seat sid s) = position s"
  by (simp add: empty_seat_def)

lemma seats_numbered_map:
  "(\<And>s. position (f s) = position s) \<Longrightarrow> seats_numbered (map f ss) = seats_numbered ss"
  by (simp add: seats_numbered_def comp_def)

lemma seats_numbered_nth:
  "seats_numbered ss \<longleftrightarrow> (\<forall>i<length ss. position (ss ! i) = i)"
  unfolding seats_numbered_def by (subst list_eq_iff_nth_eq) simp

lemma copy_guests_numbered:
  "seats_numbered new \<Longrightarrow> seats_numbered (copy_guests ex new)"
  by (simp add: seats_numbered_nth copy_guests_def)

lemma regenerate_seats_numbered: "seats_numbered (regenerate_seats ids cfg t)"
proof (cases "cfg_rowConfigs cfg")
  case None
  then show ?thesis
    by (simp add: regenerate_seats_def Let_def copy_guests_numbered createSeats_numbered)
next
  case (Some rc)
  then show ?thesis
    by (simp add: regenerate_seats_def Let_def seats_numbered_def comp_def map_idI)
qed

lemma move_tables_numbered:
  "list_all (\<lambda>t. seats_numbered (seats t)) ts \<Longrightarrow>
   move_tables g ft fs tt tS d ts = (ts', d') \<Longrightarrow>
   list_all (\<lambda>t. seats_numbered (seats t)) ts'"
proof (induction ts arbitrary: d ts' d')
  case Nil
  then show ?case by simp
next
  case (Cons t ts)
  then show ?case
    by (auto simp: seats_numbered_map Let_def split: prod.splits if_splits)
qed

lemma step_positions:
  "positions_consecutive st \<Longrightarrow> positions_consecutive (step st op)"
proof (cases op)
  case (UpdateTableConfig ids tid cfg)
  assume a: "positions_consecutive st"
  show ?thesis
  proof (cases "find (\<lambda>t. table_id t = tid) (tables st)")
    case None
    with a UpdateTableConfig show ?thesis by (simp add: updateTableConfig_def)
  next
    case (Some t)
    then have "t \<in> set (tables st)"
      by (auto simp: find_Some_iff)
    with a have "seats_numbered (seats t)"
      by (simp add: positions_consecutive_def list_all_iff)
    with a Some UpdateTableConfig show ?thesis
      by (auto simp: updateTableConfig_def positions_consecutive_def list_all_iff Let_def
          apply_simple_updates_def regenerate_seats_numbered)
  qed
next
  case (MoveGuestBetweenSeats g ft fs tt ts)
  assume a: "positions_consecutive st"
  then show ?thesis using MoveGuestBetweenSeats
    by (auto simp: moveGuestBetweenSeats_def positions_consecutive_def Let_def
        split: prod.splits dest: move_tables_numbered)
qed (auto simp: positions_consecutive_def list_all_iff addGuest_def removeGuest_def
      importGuests_def addTable_def removeTable_def updateTablePosition_def
      updateTableRotation_def assignGuestToSeat_def unassignGuestFromSeat_def clearLayout_def
      resetAll_def Let_def seats_numbered_map createSeats_numbered split: prod.splits)

lemma run_positions: "positions_consecutive (run ops)"
proof -
  have "positions_consecutive st \<Longrightarrow> positions_consecutive (foldl step st ops)" for st
    by (induction ops arbitrary: st) (simp_all add: step_positions)
  moreover have "positions_consecutive initial_layout"
    by (simp add: positions_consecutive_def initial_layout_def)
  ultimately show ?thesis by (simp add: run_def)
qed

text \<open>
  C10. In every layout reached from the empty store by any sequence of store operations,
  the seat at list index \<open>i\<close> of every table has position \<open>i\<close>; the seat list that
  \<open>createSeats\<close> builds (for \<open>addTable\<close>) and the seat list that
  \<open>updateTableConfig\<close> regenerates are numbered in this way whatever the table held
  before.
\<close>

theorem seat_positions_consecutive:
  "positions_consecutive (run ops)
   \<and> seats_numbered (createSeats ids ty n r s)
   \<and> seats_numbered (regenerate_seats ids' cfg t)"
  by (simp add: run_positions createSeats_numbered regenerate_seats_numbered)

section \<open>Assignment\<close>

text \<open>
  C6. Calling \<open>assignGuestToSeat(g, t, s)\<close> twice in a row with the same arguments leaves
  the same layout as calling it once.
\<close>

theorem assignGuestToSeat_idempotent:
  "assignGuestToSeat g t s (assignGuestToSeat g t s st) = assignGuestToSeat g t s st"
  by (auto simp: assignGuestToSeat_def Let_def comp_def clear_guest_def place_guest_def)

section \<open>Bulk import of guests\<close>

lemma tokens_from_skip_ws: "tokens_from [] (dropWhile is_ws cs) = tokens_from [] cs"
  by (induction cs) simp_all

lemma split_ws_tokens:
  "filter (\<lambda>p. length p > 0) (split_ws_from cur s) = tokens_from cur s"
  by (induction cur s rule: split_ws_from.induct) (simp_all add: tokens_from_skip_ws)

lemma tokens_from_ws_only: "list_all is_ws ys \<Longrightarrow> tokens_from cur ys = (if cur = [] then [] else [cur])"
  by (induction ys arbitrary: cur) auto

lemma tokens_from_trailing_ws:
  "list_all is_ws ys \<Longrightarrow> tokens_from cur (xs @ ys) = tokens_from cur xs"
  by (induction xs arbitrary: cur) (simp_all add: tokens_from_ws_only)

lemma trim_decomposition:
  "dropWhile is_ws s = js_trim s @ rev (takeWhile is_ws (rev (dropWhile is_ws s)))"
proof -
  have "rev (dropWhile is_ws r) @ rev (takeWhile is_ws r) = rev r" for r :: jsstring
    by (metis rev_append takeWhile_dropWhile_id)
  from this [of "rev (dropWhile is_ws s)"] show ?thesis
    by (simp add: js_trim_def)
qed

lemma tokens_trim: "tokens (js_trim s) = tokens s"
proof -
  have ws: "list_all is_ws (rev (takeWhile is_ws (rev (dropWhile is_ws s))))"
    by (simp add: list_all_iff) (meson set_takeWhileD)
  have "tokens s = tokens_from [] (dropWhile is_ws s)"
    by (simp add: tokens_def tokens_from_skip_ws)
  also have "\<dots> = tokens_from [] (js_trim s @ rev (takeWhile is_ws (rev (dropWhile is_ws s))))"
    using trim_decomposition [of s] by simp
  also have "\<dots> = tokens_from [] (js_trim s)"
    using ws by (rule tokens_from_trailing_ws)
  finally show ?thesis by (simp add: tokens_def)
qed

lemma name_parts_tokens: "name_parts s = tokens s"
  unfolding name_parts_def split_ws_def split_ws_tokens
  using tokens_trim [of s] by (simp add: tokens_def)

lemma trim_empty_iff: "js_trim s = [] \<longleftrightarrow> blank s"
proof
  assume "blank s"
  then show "js_trim s = []"
    by (auto simp: js_trim_def blank_def list_all_iff
        dest: set_dropWhileD)
next
  assume a: "js_trim s = []"
  show "blank s"
  proof (rule ccontr)
    assume "\<not> blank s"
    then have ne: "dropWhile is_ws s \<noteq> []"
      by (simp add: blank_def list_all_iff)
    then have h: "\<not> is_ws (hd (dropWhile is_ws s))"
      by (rule hd_dropWhile)
    from a have "\<forall>x\<in>set (dropWhile is_ws s). is_ws x"
      by (simp add: js_trim_def)
    with ne h show False
      by (meson hd_in_set)
  qed
qed

lemma tokens_from_wellformed:
  "list_all (\<lambda>c. \<not> is_ws c) cur \<Longrightarrow> t \<in> set (tokens_from cur s) \<Longrightarrow>
     t \<noteq> [] \<and> list_all (\<lambda>c. \<not> is_ws c) t"
  by (induction cur s rule: tokens_from.induct) (auto split: if_splits)

lemma tokens_wellformed:
  "t \<in> set (tokens s) \<Longrightarrow> t \<noteq> [] \<and> list_all (\<lambda>c. \<not> is_ws c) t"
  using tokens_from_wellformed [of "[]" t s] by (simp add: tokens_def)

lemma tokens_empty_iff: "tokens s = [] \<longleftrightarrow> blank s"
proof -
  have "tokens_from cur s = [] \<longleftrightarrow> cur = [] \<and> list_all is_ws s" for cur
    by (induction cur s rule: tokens_from.induct) auto
  then show ?thesis by (simp add: tokens_def blank_def)
qed

lemma trim_id:
  "s \<noteq> [] \<Longrightarrow> \<not> is_ws (hd s) \<Longrightarrow> \<not> is_ws (last s) \<Longrightarrow> js_trim s = s"
proof -
  assume ne: "s \<noteq> []" and h: "\<not> is_ws (hd s)" and l: "\<not> is_ws (last s)"
  from ne h have 1: "dropWhile is_ws s = s" by (cases s) simp_all
  from ne l have "dropWhile is_ws (rev s) = rev s"
    by (cases "rev s") (simp_all add: last_rev [symmetric] hd_rev)
  with 1 show ?thesis by (simp add: js_trim_def)
qed


lemma token_ends:
  "t \<noteq> [] \<Longrightarrow> list_all (\<lambda>c. \<not> is_ws c) t \<Longrightarrow> \<not> is_ws (hd t) \<and> \<not> is_ws (last t)"
  by (simp add: list_all_iff)

lemma join_sp_nonempty: "m \<noteq> [] \<Longrightarrow> join_sp (m # ms) \<noteq> []"
  by (cases ms) simp_all

lemma space_is_ws: "is_ws 0x20"
  by (simp add: is_ws_def)

lemma import_guest_spec:
  assumes "\<not> blank name"
  shows "import_guest i name = spec_guest i (tokens name)"
proof -
  have parts: "parseGuestName (js_trim name) = parse_parts (tokens name)"
    by (simp add: parseGuestName_def name_parts_tokens tokens_trim)
  have wf: "\<And>t. t \<in> set (tokens name) \<Longrightarrow> t \<noteq> [] \<and> \<not> is_ws (hd t) \<and> \<not> is_ws (last t)"
    using tokens_wellformed token_ends by blast
  from assms have ne: "tokens name \<noteq> []"
    by (simp add: tokens_empty_iff)
  show ?thesis
  proof (cases "tokens name")
    case Nil
    with ne show ?thesis by simp
  next
    case (Cons l rest)
    note c1 = Cons
    show ?thesis
    proof (cases rest)
      case Nil
      with c1 have t: "tokens name = [l]" by simp
      with wf [of l] have "l \<noteq> []" "\<not> is_ws (hd l)" "\<not> is_ws (last l)" by simp_all
      then have "js_trim l = l" by (rule trim_id)
      moreover have "js_trim (0x20 # l) = js_trim l"
        by (simp add: js_trim_def space_is_ws)
      ultimately show ?thesis
        using t by (simp add: import_guest_def parts)
    next
      case (Cons f rest2)
      note c2 = Cons
      from c1 c2 wf [of l] wf [of f] have l: "l \<noteq> []" "\<not> is_ws (hd l)"
        and f: "f \<noteq> []" "\<not> is_ws (last f)" by simp_all
      then have tr: "js_trim (l @ 0x20 # f) = l @ 0x20 # f"
        by (intro trim_id) simp_all
      show ?thesis
      proof (cases rest2)
        case Nil
        with c1 c2 tr show ?thesis
          by (simp add: import_guest_def parts)
      next
        case (Cons m ms)
        with c1 c2 wf [of m] have "join_sp (m # ms) \<noteq> []"
          by (simp add: join_sp_nonempty)
        with Cons c1 c2 show ?thesis
          by (simp add: import_guest_def parts)
      qed
    qed
  qed
qed

lemma import_loop_spec:
  "import_loop ids k names =
     map (\<lambda>(j, n). spec_guest (ids j) (tokens n)) (enumerate k (filter (\<lambda>n. \<not> blank n) names))"
  by (induction names arbitrary: k) (simp_all add: trim_empty_iff import_guest_spec)

lemma guest_id_spec_guest: "guest_id (spec_guest i ts) = i"
  by (cases "(i, ts)" rule: spec_guest.cases) simp_all

lemma guest_ids_enumerate:
  "map guest_id (map (\<lambda>(j, n). spec_guest (ids j) (tokens n)) (enumerate k xs)) =
     map ids [k..<k + length xs]"
proof (induction xs arbitrary: k)
  case Nil
  then show ?case by simp
next
  case (Cons x xs)
  have "[k..<k + length (x # xs)] = k # [Suc k..<Suc k + length xs]"
    by (subst upt_rec) simp
  with Cons [of "Suc k"] show ?case
    by (simp add: guest_id_spec_guest)
qed

lemma spec_imported_ids:
  "map guest_id (spec_imported ids names) = map ids [0..<length (filter (\<lambda>n. \<not> blank n) names)]"
  using guest_ids_enumerate [of ids 0] by (simp add: spec_imported_def)

text \<open>
  C7. \<open>importGuests\<close> skips every blank (empty or whitespace-only) entry and creates one
  guest for each other entry, in order, with the next identifier drawn: one token gives the
  first name with an empty last name; two tokens give last name and first name; three or
  more give last name, first name and the remaining tokens joined by spaces as middle name.
  The created guests are appended to the guest list and their identifiers, in the same
  order, to the unassigned list.
\<close>

theorem importGuests_follows_spec:
  "importGuests ids names st =
     st\<lparr>guests := guests st @ spec_imported ids names,
        unassignedGuests := unassignedGuests st @ map guest_id (spec_imported ids names)\<rparr>
   \<and> map guest_id (spec_imported ids names) =
       map ids [0..<length (filter (\<lambda>n. \<not> blank n) names)]"
  by (simp add: importGuests_def Let_def import_loop_spec spec_imported_def [symmetric]
      spec_imported_ids)

text \<open>
  The scenario of the specification: the three Cyrillic names give the three guests it
  lists, all unassigned.
\<close>

theorem importGuests_scenario:
  "importGuests (ids_from [''g1'', ''g2'', ''g3'']) scenario_names initial_layout =
     \<lparr>tables = [],
      guests =
        [\<lparr>guest_id = ''g1'', firstName = Ivan, lastName = Ivanov, middleName = None,
          fullName = Ivanov @ [0x20] @ Ivan\<rparr>,
         \<lparr>guest_id = ''g2'', firstName = Petr, lastName = Petrov, middleName = Some Sergeevich,
          fullName = Petrov @ [0x20] @ Petr @ [0x20] @ Sergeevich\<rparr>,
         \<lparr>guest_id = ''g3'', firstName = Sidorova, lastName = [], middleName = None,
          fullName = Sidorova\<rparr>],
      unassignedGuests = [''g1'', ''g2'', ''g3'']\<rparr>"
proof -
  have ws: "\<not> is_ws 0x418" "\<not> is_ws 0x432" "\<not> is_ws 0x430" "\<not> is_ws 0x43D" "\<not> is_ws 0x43E"
    "\<not> is_ws 0x41F" "\<not> is_ws 0x435" "\<not> is_ws 0x442" "\<not> is_ws 0x440" "\<not> is_ws 0x421"
    "\<not> is_ws 0x433" "\<not> is_ws 0x438" "\<not> is_ws 0x447" "\<not> is_ws 0x434" "is_ws 0x20"
    by (simp_all add: is_ws_def)
  have t: "tokens (Ivanov @ 0x20 # Ivan) = [Ivanov, Ivan]"
    "tokens (Petrov @ 0x20 # Petr @ 0x20 # Sergeevich) = [Petrov, Petr, Sergeevich]"
    "tokens Sidorova = [Sidorova]"
    by (simp_all add: tokens_def Ivanov_def Ivan_def Petrov_def Petr_def Sergeevich_def
        Sidorova_def ws)
  have b: "\<not> blank (Ivanov @ 0x20 # Ivan)"
    "\<not> blank (Petrov @ 0x20 # Petr @ 0x20 # Sergeevich)" "\<not> blank Sidorova"
    using t by (simp_all add: tokens_empty_iff [symmetric])
  show ?thesis
    using importGuests_follows_spec [of "ids_from [''g1'', ''g2'', ''g3'']" scenario_names initial_layout]
    by (simp add: spec_imported_def scenario_names_def b t ids_from_def initial_layout_def
        enumerate_eq_zip upt_conv_Cons)
qed

section \<open>Evaluating the store on the worked examples\<close>

lemmas store_defs = run_def initial_layout_def addGuest_def addTable_def assignGuestToSeat_def
  updateTableConfig_def moveGuestBetweenSeats_def Let_def createSeats_def or_default_def
  ids_from_def js_trim_def is_ws_def upt_conv_Cons clear_guest_def place_guest_def
  empty_seat_def truthy_id_def no_update_def apply_simple_updates_def seating_changed_def
  regenerate_seats_def copy_guests_def placement_invariant_def placed_once_def
  unassigned_count_def seated_count_def seat_guests_def implied_seat_count_def
  seat_count_invariant_def

text \<open>
  C1. The invariant that every guest is either listed once as unassigned or seated on
  exactly one seat does not hold in every reachable layout. It holds after a guest has been
  seated at seat 5 of a round table, and fails once the table is resized to three seats: the
  guest is in the guest list, on no seat and not in the unassigned list. It holds with two
  guests on seats 0 and 1 of one table, and fails once the first is moved onto the seat of
  the second with \<open>moveGuestBetweenSeats\<close>: the moving guest is on no seat and not listed.
\<close>

theorem placement_invariant_violated:
  "placement_invariant (run one_seated_ops)
   \<and> \<not> placement_invariant (run (one_seated_ops @ [shrink_to_3]))
   \<and> placement_invariant (run same_table_ops)
   \<and> \<not> placement_invariant
        (run (same_table_ops @ [MoveGuestBetweenSeats ''a'' ''t1'' ''s0'' ''t1'' ''s1'']))"
  by (simp add: one_seated_ops_def shrink_to_3_def same_table_ops_def store_defs)

section \<open>Resizing a table\<close>

text \<open>
  What the regeneration of seats does keep: a regenerated seat at an index below the old
  length carries the guest reference of the old seat at that index, and a seat at or beyond
  the old length is free.
\<close>

lemma createSeats_nth_guest:
  "i < length (createSeats ids ty n r s) \<Longrightarrow> guestId (createSeats ids ty n r s ! i) = None"
  by (auto simp: createSeats_def Let_def)

lemma regenerate_keeps_guests:
  "i < length (regenerate_seats ids cfg t) \<Longrightarrow>
     guestId (regenerate_seats ids cfg t ! i) =
       (if i < length (seats t) then guestId (seats t ! i) else None)"
proof (cases "cfg_rowConfigs cfg")
  case None
  assume "i < length (regenerate_seats ids cfg t)"
  with None show ?thesis
    by (simp add: regenerate_seats_def Let_def copy_guests_def createSeats_nth_guest)
next
  case (Some rc)
  assume "i < length (regenerate_seats ids cfg t)"
  with Some show ?thesis
    by (simp add: regenerate_seats_def Let_def)
qed

text \<open>
  C2. The resize scenario of the specification, run on the store: after the resize to six
  seats, seats 0 to 3 keep their guests and seats 4 and 5 are free; after the further
  resize to three seats, seats 0 to 2 keep their guests, and guest \<open>g3\<close>, who sat on seat
  3, is still in the guest list but has not been appended to the unassigned list, which is
  empty.
\<close>

theorem resize_drops_guest:
  "map seat_guests (tables resized_to_6) =
     [[Some ''g0'', Some ''g1'', Some ''g2'', Some ''g3'', None, None]]
   \<and> map seat_guests (tables resized_to_3) = [[Some ''g0'', Some ''g1'', Some ''g2'']]
   \<and> map guest_id (guests resized_to_3) = [''g0'', ''g1'', ''g2'', ''g3'']
   \<and> unassignedGuests resized_to_3 = []"
  by (simp add: resized_to_3_def resized_to_6_def four_seated_def store_defs)

section \<open>Moving a guest onto an occupied seat\<close>

text \<open>
  C3. With guest \<open>a\<close> on seat \<open>s0\<close> and guest \<open>b\<close> on seat \<open>s1\<close> of the same table,
  \<open>moveGuestBetweenSeats(a, t1, s0, t1, s1)\<close> empties \<open>s0\<close>, leaves \<open>b\<close> on \<open>s1\<close>
  and leaves the unassigned list empty: \<open>a\<close> is placed nowhere and \<open>b\<close> is not
  displaced. When the two seats are on different tables the move does what the
  specification says: \<open>a\<close> takes the target seat, the source seat is free and \<open>b\<close> is
  appended to the unassigned list.
\<close>

theorem move_within_one_table_loses_guest:
  "map seat_guests (tables (run same_table_ops)) =
     [[Some ''a'', Some ''b'', None, None, None, None, None, None]]
   \<and> map seat_guests (tables (moveGuestBetweenSeats ''a'' ''t1'' ''s0'' ''t1'' ''s1''
         (run same_table_ops))) =
     [[None, Some ''b'', None, None, None, None, None, None]]
   \<and> unassignedGuests (moveGuestBetweenSeats ''a'' ''t1'' ''s0'' ''t1'' ''s1''
         (run same_table_ops)) = []
   \<and> map seat_guests (tables (moveGuestBetweenSeats ''a'' ''t1'' ''s0'' ''t2'' ''u1''
         (run two_tables_ops))) =
     [[None, None, None, None, None, None, None, None],
      [None, Some ''a'', None, None, None, None, None, None]]
   \<and> unassignedGuests (moveGuestBetweenSeats ''a'' ''t1'' ''s0'' ''t2'' ''u1''
         (run two_tables_ops)) = [''b'']"
  by (simp add: same_table_ops_def two_tables_ops_def store_defs)

section \<open>Operations on identifiers that do not exist\<close>

text \<open>
  \<open>updateTableConfig\<close>, \<open>unassignGuestFromSeat\<close> and \<open>removeTable\<close> return the layout
  they were given when the table or the seat is not found.
\<close>

lemma updateTableConfig_unknown_table:
  "find (\<lambda>t. table_id t = tid) (tables st) = None \<Longrightarrow> updateTableConfig ids tid cfg st = st"
  by (simp add: updateTableConfig_def)

lemma unassignGuestFromSeat_unknown_table:
  "find (\<lambda>t. table_id t = tid) (tables st) = None \<Longrightarrow> unassignGuestFromSeat tid sid st = st"
  by (simp add: unassignGuestFromSeat_def truthy_id_def)

lemma unassignGuestFromSeat_unknown_seat:
  "find (\<lambda>t. table_id t = tid) (tables st) = Some t \<Longrightarrow>
   find (\<lambda>s. seat_id s = sid) (seats t) = None \<Longrightarrow> unassignGuestFromSeat tid sid st = st"
  by (simp add: unassignGuestFromSeat_def truthy_id_def)

lemma removeTable_unknown_table:
  "find (\<lambda>t. table_id t = tid) (tables st) = None \<Longrightarrow> removeTable tid st = st"
proof -
  assume a: "find (\<lambda>t. table_id t = tid) (tables st) = None"
  then have "filter (\<lambda>t. table_id t \<noteq> tid) (tables st) = tables st"
    by (simp add: find_None_iff)
  with a show ?thesis by (simp add: removeTable_def)
qed

text \<open>
  C4. \<open>assignGuestToSeat\<close> has no such check. In a store with one unassigned guest and no
  table, assigning the guest to a seat of a table that does not exist removes the guest from
  the unassigned list, so the resulting layout differs from the input layout.
\<close>

theorem assign_to_unknown_table_changes_layout:
  "unassignedGuests one_unassigned = [''g1'']
   \<and> tables one_unassigned = []
   \<and> unassignedGuests (assignGuestToSeat ''g1'' ''t9'' ''s9'' one_unassigned) = []
   \<and> assignGuestToSeat ''g1'' ''t9'' ''s9'' one_unassigned \<noteq> one_unassigned"
proof -
  have 1: "unassignedGuests one_unassigned = [''g1'']" "tables one_unassigned = []"
    by (simp_all add: one_unassigned_def store_defs)
  have 2: "unassignedGuests (assignGuestToSeat ''g1'' ''t9'' ''s9'' one_unassigned) = []"
    by (simp add: one_unassigned_def store_defs)
  from 1 2 have "unassignedGuests (assignGuestToSeat ''g1'' ''t9'' ''s9'' one_unassigned)
      \<noteq> unassignedGuests one_unassigned" by simp
  then have "assignGuestToSeat ''g1'' ''t9'' ''s9'' one_unassigned \<noteq> one_unassigned"
    by metis
  with 1 2 show ?thesis by simp
qed

section \<open>Seat counts\<close>

text \<open>
  C5. A new amphitheater has 40 seats and five rows of eight, so its seat list has the
  length its per-row counts imply. After \<open>updateTableConfig\<close> with only \<open>rows = 3\<close> the
  table has 24 seats while its per-row counts still sum to 40.
\<close>

theorem amphitheater_rows_break_seat_count:
  "seat_count_invariant (run amphi_ops)
   \<and> map (\<lambda>t. length (seats t)) (tables (run (amphi_ops @ [rows_to_3]))) = [24]
   \<and> map implied_seat_count (tables (run (amphi_ops @ [rows_to_3]))) = [Some 40]
   \<and> \<not> seat_count_invariant (run (amphi_ops @ [rows_to_3]))"
  by (simp add: amphi_ops_def rows_to_3_def store_defs eval_nat_numeral)

section \<open>Snapshot round trip\<close>

text \<open>
  \<open>handleImport\<close> never writes to the store: whatever the file and whatever
  \<open>JSON.parse\<close> makes of it, the live layout afterwards is the live layout before. A
  text that does not parse gives the error notice.
\<close>

lemma handleImport_store: "fst (handleImport parse file live) = live"
  by (simp add: handleImport_def split: option.splits)

lemma handleImport_malformed:
  "parse text = None \<Longrightarrow> handleImport parse (Some text) live = (live, ImportError)"
  by (simp add: handleImport_def)

text \<open>
  C9. A layout with one guest is exported, the store is wiped with \<open>resetAll\<close>, and the
  exported document is imported. Whatever \<open>JSON.stringify\<close> wrote and whatever
  \<open>JSON.parse\<close> returns for it, the store is still empty afterwards, so it does not hold
  the guests of the exported layout; and whenever the text parses, the notice shown is the
  one that says the plan was imported.
\<close>

theorem import_after_reset_restores_nothing:
  "map guest_id (guests one_unassigned) = [''g1'']
   \<and> import_of_export stringify parse now one_unassigned (resetAll one_unassigned) =
       initial_layout
   \<and> \<not> same_layout
         (import_of_export stringify parse now one_unassigned (resetAll one_unassigned))
         one_unassigned
   \<and> snd (handleImport parse (Some text) live) =
       (if parse text = None then ImportError else ImportDone)"
proof -
  have g: "map guest_id (guests one_unassigned) = [''g1'']"
    by (simp add: one_unassigned_def run_def initial_layout_def addGuest_def Let_def)
  have r: "import_of_export stringify parse now one_unassigned (resetAll one_unassigned) =
      initial_layout"
    by (simp add: import_of_export_def handleExport_def Let_def handleImport_store
        resetAll_def initial_layout_def)
  from g have "guests one_unassigned \<noteq> []" by auto
  then have n: "\<not> same_layout initial_layout one_unassigned"
    by (simp add: same_layout_def initial_layout_def)
  have t: "snd (handleImport parse (Some text) live) =
      (if parse text = None then ImportError else ImportDone)"
    by (simp add: handleImport_def split: option.splits)
  from g r n t show ?thesis by simp
qed

end
